theory Spec2Isabelle
  imports Complex_Main "HOL-Library.Sublist" "HOL-Library.Char_ord" "HOL-Library.List_Lexorder"
begin

section \<open>Python values, exceptions and string helpers\<close>

text \<open>
  The development embeds the dispatch engine of the P09 autoprocessing scripts
  (\<^verbatim>\<open>autoprocessing.py\<close> and \<^verbatim>\<open>utils/*.py\<close>).  Text is a \<^typ>\<open>string\<close>
  whose characters stand for code points below 256.  A raised exception is the
  \<open>Inl\<close> branch of a sum.
\<close>

datatype exn =
    CalledProcessError
  | FileNotFoundError
  | PermissionError
  | IsADirectoryError
  | JSONDecodeError
  | KeyError string
  | ValueError
  | TypeError
  | AttributeError
  | OverflowError
  | NotADirectoryError
  | FileExistsError




section \<open>Capacity guard (\<^verbatim>\<open>utils/nodes.py\<close>)\<close>






section \<open>Info extractor (\<^verbatim>\<open>utils/extract.py\<close>)\<close>

text \<open>\<^verbatim>\<open>str.isspace\<close> on the code points below 256, and \<^verbatim>\<open>str.strip()\<close>.\<close>

definition isspace :: "char \<Rightarrow> bool" where
  "isspace c \<longleftrightarrow>
     c \<in> {CHR 0x09, CHR 0x0A, CHR 0x0B, CHR 0x0C, CHR 0x0D, CHR 0x1C, CHR 0x1D, CHR 0x1E,
          CHR 0x1F, CHR 0x20, CHR 0x85, CHR 0xA0}"

definition strip :: "string \<Rightarrow> string" where
  "strip s = rev (dropWhile isspace (rev (dropWhile isspace s)))"

text \<open>\<^verbatim>\<open>key in line\<close> on strings: \<open>key\<close> occurs as a contiguous piece of \<open>line\<close>.\<close>

fun is_substring :: "string \<Rightarrow> string \<Rightarrow> bool" where
  "is_substring k [] = (k = [])"
| "is_substring k (c # cs) = (prefix k (c # cs) \<or> is_substring k cs)"

text \<open>\<^verbatim>\<open>line.split(":", 1)[-1]\<close> is the text after the first colon, or the whole
  line when it has none; \<^verbatim>\<open>line.split(":")[-1]\<close> is the text after the last colon.\<close>

definition after_first_colon :: "string \<Rightarrow> string" where
  "after_first_colon s =
     (case dropWhile (\<lambda>c. c \<noteq> CHR '':'') s of [] \<Rightarrow> s | _ # rest \<Rightarrow> rest)"

definition after_last_colon :: "string \<Rightarrow> string" where
  "after_last_colon s = rev (takeWhile (\<lambda>c. c \<noteq> CHR '':'') (rev s))"

text \<open>\<^verbatim>\<open>f.readlines()\<close> on the text of a file: every line keeps its newline.\<close>

fun readlines_from :: "string \<Rightarrow> string \<Rightarrow> string list" where
  "readlines_from cur [] = (if cur = [] then [] else [cur])"
| "readlines_from cur (c # cs) =
     (if c = CHR 0x0A then (cur @ [c]) # readlines_from [] cs
      else readlines_from (cur @ [c]) cs)"

definition readlines :: "string \<Rightarrow> string list" where
  "readlines s = readlines_from [] s"

subsection \<open>The regular expression of the numeric mode\<close>

text \<open>
  A backtracking matcher in the style of Python's \<^verbatim>\<open>re\<close>: \<open>matches r s\<close> lists, in
  the order in which the engine tries them, the rests of \<open>s\<close> after a match of \<open>r\<close> at
  the start of \<open>s\<close>.  Optional and starred parts are greedy.  \<open>re_search\<close> is
  \<^verbatim>\<open>re.search(...).group()\<close>: the first alternative at the leftmost position that
  matches.
\<close>

datatype re = Cls "char \<Rightarrow> bool" | Seq re re | Opt re | Star re

definition Plus :: "re \<Rightarrow> re" where
  "Plus r = Seq r (Star r)"

fun matches :: "re \<Rightarrow> string \<Rightarrow> string list" where
  "matches (Cls p) s = (case s of [] \<Rightarrow> [] | c # cs \<Rightarrow> if p c then [cs] else [])"
| "matches (Seq a b) s = concat (map (matches b) (matches a s))"
| "matches (Opt a) s = matches a s @ [s]"
| "matches (Star a) s =
     concat (map (\<lambda>t. if length t < length s then matches (Star a) t else []) (matches a s)) @ [s]"

fun re_search :: "re \<Rightarrow> string \<Rightarrow> string option" where
  "re_search r s =
     (case matches r s of
        rest # _ \<Rightarrow> Some (take (length s - length rest) s)
      | [] \<Rightarrow> (case s of [] \<Rightarrow> None | _ # cs \<Rightarrow> re_search r cs))"

definition is_digit :: "char \<Rightarrow> bool" where
  "is_digit c \<longleftrightarrow> c \<in> set ''0123456789''"

definition is_sign :: "char \<Rightarrow> bool" where
  "is_sign c \<longleftrightarrow> c = CHR ''-'' \<or> c = CHR ''+''"

text \<open>\<^verbatim>\<open>[-+]?[0-9]*\.?[0-9]+(?:[eE][-+]?[0-9]+)?\<close>\<close>

definition number_re :: re where
  "number_re =
     Seq (Opt (Cls is_sign))
      (Seq (Star (Cls is_digit))
        (Seq (Opt (Cls (\<lambda>c. c = CHR ''.'')))
          (Seq (Plus (Cls is_digit))
            (Opt (Seq (Cls (\<lambda>c. c = CHR ''e'' \<or> c = CHR ''E''))
                   (Seq (Opt (Cls is_sign)) (Plus (Cls is_digit))))))))"

subsection \<open>Numbers\<close>

text \<open>
  A Python float is represented by the rational its literal denotes, or by an
  infinity when the literal's magnitude rounds to one (from \<open>2^1024 - 2^970\<close> on, which
  is \<open>(2^54 - 1) * 2^970\<close>):
  \<^verbatim>\<open>int()\<close> raises \<^verbatim>\<open>OverflowError\<close> there.  The rounding of finite values to
  binary64 is not part of the embedding.
\<close>

datatype pyfloat = Finite rat | Infinity bool

datatype pyval = PyStr string | PyInt int | PyFloat pyfloat

definition overflow_shift :: nat where
  "overflow_shift = 970"

definition float_overflow_bound :: rat where
  "float_overflow_bound = (2 ^ 54 - 1) * 2 ^ overflow_shift"

text \<open>The value of a decimal digit is the distance of its code point from that
  of \<^verbatim>\<open>0\<close>.\<close>

definition digit_val :: "char \<Rightarrow> nat" where
  "digit_val c = of_char c - of_char CHR ''0''"

definition digits_val :: "string \<Rightarrow> nat" where
  "digits_val ds = foldl (\<lambda>a c. 10 * a + digit_val c) 0 ds"

text \<open>\<^verbatim>\<open>float(text)\<close> for a text matched by \<open>number_re\<close>, read in the order of the
  pattern: sign, integer digits, fraction digits, exponent.\<close>

fun lit_sign :: "string \<Rightarrow> bool \<times> string" where
  "lit_sign [] = (False, [])"
| "lit_sign (c # cs) =
     (if c = CHR ''-'' then (True, cs) else if c = CHR ''+'' then (False, cs)
      else (False, c # cs))"

fun lit_fraction :: "string \<Rightarrow> string \<times> string" where
  "lit_fraction [] = ([], [])"
| "lit_fraction (c # cs) =
     (if c = CHR ''.'' then (takeWhile is_digit cs, dropWhile is_digit cs) else ([], c # cs))"

fun lit_exponent :: "string \<Rightarrow> int" where
  "lit_exponent [] = 0"
| "lit_exponent (c # cs) =
     (if c = CHR ''e'' \<or> c = CHR ''E''
      then (case lit_sign cs of (eneg, ds) \<Rightarrow>
              if eneg then - int (digits_val ds) else int (digits_val ds))
      else 0)"

definition scale10 :: "rat \<Rightarrow> int \<Rightarrow> rat" where
  "scale10 m e = (if e < 0 then m / 10 ^ nat (- e) else m * 10 ^ nat e)"

definition signed_float :: "bool \<Rightarrow> rat \<Rightarrow> pyfloat" where
  "signed_float neg mag =
     (if mag \<ge> float_overflow_bound then Infinity neg
      else Finite (if neg then - mag else mag))"

definition float_of_literal :: "string \<Rightarrow> pyfloat" where
  "float_of_literal s =
     (case lit_sign s of (neg, s1) \<Rightarrow>
      case lit_fraction (dropWhile is_digit s1) of (fp, r2) \<Rightarrow>
        signed_float neg
          (scale10 (of_nat (digits_val (takeWhile is_digit s1))
                     + of_nat (digits_val fp) / 10 ^ length fp)
                   (lit_exponent r2)))"

text \<open>\<^verbatim>\<open>int(x)\<close> on a float truncates towards zero and raises on an infinity.\<close>

definition int_of_float :: "pyfloat \<Rightarrow> exn + int" where
  "int_of_float x =
     (case x of
        Infinity _ \<Rightarrow> Inl OverflowError
      | Finite q \<Rightarrow> Inr (if q < 0 then - \<lfloor>- q\<rfloor> else \<lfloor>q\<rfloor>))"

subsection \<open>\<^verbatim>\<open>extract_value_from_info\<close>\<close>

text \<open>
  Reading a file is a function from the path to the text of the file, or to the
  exception that \<^verbatim>\<open>open\<close> or \<^verbatim>\<open>readlines\<close> raises (absent, unreadable,
  undecodable).
\<close>

type_synonym reader = "string \<Rightarrow> exn + string"

text \<open>The \<^verbatim>\<open>for line in lines\<close> loop; \<open>Inr None\<close> is the loop running to its end
  without a \<^verbatim>\<open>return\<close>.\<close>

fun scan_info_lines :: "string \<Rightarrow> bool \<Rightarrow> bool \<Rightarrow> string list \<Rightarrow> exn + pyval option" where
  "scan_info_lines key is_float is_string [] = Inr None"
| "scan_info_lines key is_float is_string (line # rest) =
     (if is_substring key line then
        (if is_string then Inr (Some (PyStr (strip (after_first_colon line))))
         else
           (case re_search number_re line of
              Some m \<Rightarrow>
                (if is_float then Inr (Some (PyFloat (float_of_literal m)))
                 else (case int_of_float (float_of_literal m) of
                         Inl e \<Rightarrow> Inl e
                       | Inr i \<Rightarrow> Inr (Some (PyInt i))))
            | None \<Rightarrow> scan_info_lines key is_float is_string rest))
      else scan_info_lines key is_float is_string rest)"

text \<open>The \<^verbatim>\<open>fallback\<close> argument defaults to \<^verbatim>\<open>None\<close>, which stands for
  \<^verbatim>\<open>""\<close> in string mode and for \<^verbatim>\<open>0\<close> otherwise.\<close>

definition fallback_value :: "pyval option \<Rightarrow> bool \<Rightarrow> pyval" where
  "fallback_value fallback is_string =
     (case fallback of None \<Rightarrow> (if is_string then PyStr [] else PyInt 0) | Some v \<Rightarrow> v)"

text \<open>The body of the \<^verbatim>\<open>try\<close> block.\<close>

definition extract_try_body :: "reader \<Rightarrow> string \<Rightarrow> string \<Rightarrow> bool \<Rightarrow> bool \<Rightarrow> exn + pyval option" where
  "extract_try_body rd info_path key is_float is_string =
     (case rd info_path of
        Inl e \<Rightarrow> Inl e
      | Inr text \<Rightarrow> scan_info_lines key is_float is_string (readlines text))"

text \<open>\<^verbatim>\<open>except Exception: pass\<close> swallows what the body raises, and the function
  ends with \<^verbatim>\<open>return fallback\<close>.\<close>

definition extract_value_from_info ::
  "reader \<Rightarrow> string \<Rightarrow> string \<Rightarrow> pyval option \<Rightarrow> bool \<Rightarrow> bool \<Rightarrow> exn + pyval" where
  "extract_value_from_info rd info_path key fallback is_float is_string =
     (let fb = fallback_value fallback is_string in
      case extract_try_body rd info_path key is_float is_string of
        Inr (Some v) \<Rightarrow> Inr v
      | Inr None \<Rightarrow> Inr fb
      | Inl e \<Rightarrow> Inr fb)"

text \<open>A descriptor used in the examples: the \<^verbatim>\<open>frames/position:\<close> line comes before
  the \<^verbatim>\<open>frames:\<close> line.\<close>

definition sample_reader :: reader where
  "sample_reader path =
     (if path = ''/raw/a/info.txt''
      then Inr ''method: rotational\<newline>frames/position: 5\<newline>frames: 100\<newline>''
      else if path = ''/raw/c/info.txt'' then Inr []
      else Inl FileNotFoundError)"

section \<open>Template rendering (\<^verbatim>\<open>string.Template\<close>)\<close>

text \<open>
  The pattern of \<^verbatim>\<open>string.Template\<close> recognises, at a \<^verbatim>\<open>$\<close>: the escape \<^verbatim>\<open>$$\<close>, a
  named placeholder \<^verbatim>\<open>$identifier\<close>, a braced placeholder \<^verbatim>\<open>${identifier}\<close>, and
  otherwise an invalid placeholder, which is the \<^verbatim>\<open>$\<close> alone.  Identifiers are
  ASCII: a letter or underscore, then letters, digits and underscores.
\<close>

datatype tpiece = Lit char | Escaped | Named string | Braced string | Invalid

definition is_id_start :: "char \<Rightarrow> bool" where
  "is_id_start c \<longleftrightarrow>
     c \<in> set ''_abcdefghijklmnopqrstuvwxyzABCDEFGHIJKLMNOPQRSTUVWXYZ''"

definition is_id_char :: "char \<Rightarrow> bool" where
  "is_id_char c \<longleftrightarrow> is_id_start c \<or> is_digit c"

function template_pieces :: "string \<Rightarrow> tpiece list" where
  "template_pieces [] = []"
| "template_pieces (c # cs) =
     (if c \<noteq> CHR ''$'' then Lit c # template_pieces cs
      else (case cs of
              [] \<Rightarrow> [Invalid]
            | d # ds \<Rightarrow>
                if d = CHR ''$'' then Escaped # template_pieces ds
                else if is_id_start d
                  then Named (d # takeWhile is_id_char ds) # template_pieces (dropWhile is_id_char ds)
                else if d = CHR ''{'' \<and> ds \<noteq> [] \<and> is_id_start (hd ds)
                        \<and> dropWhile is_id_char ds \<noteq> []
                        \<and> hd (dropWhile is_id_char ds) = CHR ''}''
                  then Braced (takeWhile is_id_char ds) # template_pieces (tl (dropWhile is_id_char ds))
                else Invalid # template_pieces cs))"
  by pat_completeness auto
termination
proof (relation "measure length")
  fix c :: char and cs :: string and d ds
  assume "cs = d # ds"
  have "length (dropWhile is_id_char ds) \<le> length ds"
    by (rule length_dropWhile_le)
  then show "(dropWhile is_id_char ds, c # cs) \<in> measure length"
    using \<open>cs = d # ds\<close> by simp
  have "length (tl (dropWhile is_id_char ds)) \<le> length ds"
    using length_dropWhile_le [of is_id_char ds] by simp
  then show "(tl (dropWhile is_id_char ds), c # cs) \<in> measure length"
    using \<open>cs = d # ds\<close> by simp
qed simp_all

text \<open>\<^verbatim>\<open>Template.substitute\<close>: a placeholder without an entry raises \<^verbatim>\<open>KeyError\<close>, an
  invalid placeholder raises \<^verbatim>\<open>ValueError\<close>.  The mapping gives the text
  \<^verbatim>\<open>str(mapping[name])\<close> of each entry.\<close>

fun substitute_pieces :: "(string \<rightharpoonup> string) \<Rightarrow> tpiece list \<Rightarrow> exn + string" where
  "substitute_pieces m [] = Inr []"
| "substitute_pieces m (p # ps) =
     (case (case p of
              Lit c \<Rightarrow> Inr [c]
            | Escaped \<Rightarrow> Inr ''$''
            | Named n \<Rightarrow> (case m n of None \<Rightarrow> Inl (KeyError n) | Some v \<Rightarrow> Inr v)
            | Braced n \<Rightarrow> (case m n of None \<Rightarrow> Inl (KeyError n) | Some v \<Rightarrow> Inr v)
            | Invalid \<Rightarrow> Inl ValueError) of
        Inl e \<Rightarrow> Inl e
      | Inr s \<Rightarrow> (case substitute_pieces m ps of Inl e \<Rightarrow> Inl e | Inr rest \<Rightarrow> Inr (s @ rest)))"

definition substitute :: "(string \<rightharpoonup> string) \<Rightarrow> string \<Rightarrow> exn + string" where
  "substitute m template = substitute_pieces m (template_pieces template)"

text \<open>\<^verbatim>\<open>Template.safe_substitute\<close>: a placeholder without an entry, and an invalid
  placeholder, stay in the output as they are written.\<close>

fun safe_piece :: "(string \<rightharpoonup> string) \<Rightarrow> tpiece \<Rightarrow> string" where
  "safe_piece m (Lit c) = [c]"
| "safe_piece m Escaped = ''$''"
| "safe_piece m (Named n) = (case m n of None \<Rightarrow> ''$'' @ n | Some v \<Rightarrow> v)"
| "safe_piece m (Braced n) = (case m n of None \<Rightarrow> ''${'' @ n @ ''}'' | Some v \<Rightarrow> v)"
| "safe_piece m Invalid = ''$''"

definition safe_substitute :: "(string \<rightharpoonup> string) \<Rightarrow> string \<Rightarrow> string" where
  "safe_substitute m template = concat (map (safe_piece m) (template_pieces template))"

section \<open>Paths and the file system\<close>

text \<open>\<^verbatim>\<open>os.path.join(a, b)\<close> on POSIX.  The \<^verbatim>\<open>/\<close> of \<^verbatim>\<open>pathlib\<close> is modelled by the
  same function.\<close>

definition path_join :: "string \<Rightarrow> string \<Rightarrow> string" where
  "path_join a b =
     (if b \<noteq> [] \<and> hd b = CHR ''/'' then b
      else if a = [] \<or> last a = CHR ''/'' then a @ b
      else a @ ''/'' @ b)"

text \<open>\<^verbatim>\<open>s.split(c)\<close> for a one-character separator.\<close>

definition split_on :: "char \<Rightarrow> string \<Rightarrow> string list" where
  "split_on c s = foldr (\<lambda>x acc. if x = c then [] # acc else (x # hd acc) # tl acc) s [[]]"

definition components :: "string \<Rightarrow> string list" where
  "components p = filter (\<lambda>x. x \<noteq> []) (split_on CHR ''/'' p)"

fun join_with :: "string \<Rightarrow> string list \<Rightarrow> string" where
  "join_with sep [] = []"
| "join_with sep [x] = x"
| "join_with sep (x # y # ys) = x @ sep @ join_with sep (y # ys)"

text \<open>The file system resolves a path up to repeated and trailing slashes.\<close>

definition norm_path :: "string \<Rightarrow> string" where
  "norm_path p =
     (if p \<noteq> [] \<and> hd p = CHR ''/'' then ''/'' else []) @ join_with ''/'' (components p)"

text \<open>\<^verbatim>\<open>Path(p).name\<close>: the last component.\<close>

definition path_name :: "string \<Rightarrow> string" where
  "path_name p = (case components p of [] \<Rightarrow> [] | cs \<Rightarrow> last cs)"

text \<open>
  The file system is a table from normalised paths to regular files (with their
  text) and directories.  Symbolic links, special files, permissions and log
  files are outside the model.
\<close>

datatype node = File string | Dir

type_synonym filesystem = "(string \<times> node) list"

definition fs_lookup :: "filesystem \<Rightarrow> string \<Rightarrow> node option" where
  "fs_lookup fs p = map_of fs (norm_path p)"

definition path_exists :: "filesystem \<Rightarrow> string \<Rightarrow> bool" where
  "path_exists fs p \<longleftrightarrow> fs_lookup fs p \<noteq> None"

definition isfile :: "filesystem \<Rightarrow> string \<Rightarrow> bool" where
  "isfile fs p \<longleftrightarrow> (case fs_lookup fs p of Some (File _) \<Rightarrow> True | _ \<Rightarrow> False)"

definition isdir :: "filesystem \<Rightarrow> string \<Rightarrow> bool" where
  "isdir fs p \<longleftrightarrow> fs_lookup fs p = Some Dir"

text \<open>\<^verbatim>\<open>open(p).read()\<close>\<close>

definition read_file :: "filesystem \<Rightarrow> reader" where
  "read_file fs p =
     (case fs_lookup fs p of
        None \<Rightarrow> Inl FileNotFoundError
      | Some Dir \<Rightarrow> Inl IsADirectoryError
      | Some (File content) \<Rightarrow> Inr content)"

text \<open>The entries of a directory are the paths one component below it.\<close>

definition dir_prefix :: "string \<Rightarrow> string" where
  "dir_prefix d = (if d = ''/'' then d else d @ ''/'')"

definition child_name :: "string \<Rightarrow> string \<Rightarrow> string option" where
  "child_name d k =
     (let n = drop (length (dir_prefix d)) k in
      if prefix (dir_prefix d) k \<and> n \<noteq> [] \<and> CHR ''/'' \<notin> set n then Some n else None)"

definition listdir :: "filesystem \<Rightarrow> string \<Rightarrow> exn + string list" where
  "listdir fs p =
     (case fs_lookup fs p of
        None \<Rightarrow> Inl FileNotFoundError
      | Some (File _) \<Rightarrow> Inl NotADirectoryError
      | Some Dir \<Rightarrow> Inr (remdups (List.map_filter (child_name (norm_path p)) (map fst fs))))"

definition below :: "string \<Rightarrow> string \<Rightarrow> bool" where
  "below d k \<longleftrightarrow> k = d \<or> prefix (dir_prefix d) k"

text \<open>\<^verbatim>\<open>os.makedirs(p, exist_ok=True)\<close>: every missing directory on the way is
  created; a regular file on the way is an error.\<close>

fun path_prefixes :: "string \<Rightarrow> string list \<Rightarrow> string list" where
  "path_prefixes pre [] = []"
| "path_prefixes pre (c # cs) =
     (pre @ c) # path_prefixes (pre @ c @ ''/'') cs"

definition ancestors_and_self :: "string \<Rightarrow> string list" where
  "ancestors_and_self p =
     path_prefixes (if p \<noteq> [] \<and> hd p = CHR ''/'' then ''/'' else []) (components p)"

fun make_each :: "filesystem \<Rightarrow> string list \<Rightarrow> exn + filesystem" where
  "make_each fs [] = Inr fs"
| "make_each fs (d # ds) =
     (case map_of fs d of
        Some (File _) \<Rightarrow> Inl FileExistsError
      | Some Dir \<Rightarrow> make_each fs ds
      | None \<Rightarrow> make_each (fs @ [(d, Dir)]) ds)"

definition makedirs :: "filesystem \<Rightarrow> string \<Rightarrow> exn + filesystem" where
  "makedirs fs p = make_each fs (ancestors_and_self p)"

definition parent_dir :: "string \<Rightarrow> string" where
  "parent_dir p =
     (if p \<noteq> [] \<and> hd p = CHR ''/'' then ''/'' else []) @ join_with ''/'' (butlast (components p))"

text \<open>\<^verbatim>\<open>open(p, "w").write(content)\<close>: the directory of \<open>p\<close> has to exist.\<close>

definition write_file :: "filesystem \<Rightarrow> string \<Rightarrow> string \<Rightarrow> exn + filesystem" where
  "write_file fs p content =
     (if fs_lookup fs p = Some Dir then Inl IsADirectoryError
      else if butlast (components p) \<noteq> [] \<and> \<not> isdir fs (parent_dir p) then Inl FileNotFoundError
      else Inr (filter (\<lambda>(k, _). k \<noteq> norm_path p) fs @ [(norm_path p, File content)]))"

text \<open>\<^verbatim>\<open>Path(p).touch()\<close> creates an empty file and keeps an existing one.\<close>

definition touch :: "filesystem \<Rightarrow> string \<Rightarrow> exn + filesystem" where
  "touch fs p = (if path_exists fs p then Inr fs else write_file fs p [])"

text \<open>\<^verbatim>\<open>shutil.copy(src, dst)\<close> with \<open>dst\<close> a file path.\<close>

definition copy_file :: "filesystem \<Rightarrow> string \<Rightarrow> string \<Rightarrow> exn + filesystem" where
  "copy_file fs src dst =
     (case read_file fs src of Inl e \<Rightarrow> Inl e | Inr content \<Rightarrow> write_file fs dst content)"

text \<open>
  Deleting.  Whether the operating system refuses to delete a path is given by
  the predicate \<open>locked\<close>.  \<^verbatim>\<open>os.unlink\<close> removes a file; \<^verbatim>\<open>shutil.rmtree\<close> removes
  a directory with everything below it, and raises when something in it cannot
  be deleted (the model then leaves the whole subtree in place, where the
  library may have removed a part of it).
\<close>

definition unlink :: "(string \<Rightarrow> bool) \<Rightarrow> filesystem \<Rightarrow> string \<Rightarrow> exn + filesystem" where
  "unlink locked fs p =
     (case fs_lookup fs p of
        None \<Rightarrow> Inl FileNotFoundError
      | Some Dir \<Rightarrow> Inl IsADirectoryError
      | Some (File _) \<Rightarrow>
          if locked (norm_path p) then Inl PermissionError
          else Inr (filter (\<lambda>(k, _). k \<noteq> norm_path p) fs))"

definition rmtree :: "(string \<Rightarrow> bool) \<Rightarrow> filesystem \<Rightarrow> string \<Rightarrow> exn + filesystem" where
  "rmtree locked fs p =
     (case fs_lookup fs p of
        None \<Rightarrow> Inl FileNotFoundError
      | Some (File _) \<Rightarrow> Inl NotADirectoryError
      | Some Dir \<Rightarrow>
          if \<exists>k \<in> set (map fst fs). below (norm_path p) k \<and> locked k then Inl PermissionError
          else Inr (filter (\<lambda>(k, _). \<not> below (norm_path p) k) fs))"

section \<open>Properties of the capacity guard\<close>




section \<open>Properties of the info extractor\<close>




lemma int_of_infinity: "int_of_float (Infinity b) = Inl OverflowError"
  by (simp add: int_of_float_def)

lemma scan_no_key:
  "\<forall>l \<in> set ls. \<not> is_substring key l \<Longrightarrow> scan_info_lines key isf iss ls = Inr None"
  by (induction ls) simp_all



lemma extract_returns: "\<exists>v. extract_value_from_info rd p key fb isf iss = Inr v"
  by (simp add: extract_value_from_info_def Let_def split: sum.split option.split)

lemma extract_fallback_on_raise:
  "extract_try_body rd p key isf iss = Inl e \<Longrightarrow>
   extract_value_from_info rd p key fb isf iss = Inr (fallback_value fb iss)"
  by (simp add: extract_value_from_info_def)

lemma extract_fallback_on_exhausted:
  "extract_try_body rd p key isf iss = Inr None \<Longrightarrow>
   extract_value_from_info rd p key fb isf iss = Inr (fallback_value fb iss)"
  by (simp add: extract_value_from_info_def)

text \<open>
  Claim C9.  For every reader, path, key, fallback and mode,
  \<open>extract_value_from_info\<close> returns a value and raises nothing.  When the file
  cannot be opened or read, when it is empty, when no line contains the key, and
  whenever the body of the \<^verbatim>\<open>try\<close> block raises, the value is the fallback, which
  is \<open>0\<close> in numeric mode and the empty string in string mode unless the caller
  gave one.
\<close>

theorem extract_never_raises:
  "(\<exists>v. extract_value_from_info rd p key fb isf iss = Inr v)
   \<and> (\<forall>e. rd p = Inl e \<longrightarrow>
         extract_value_from_info rd p key fb isf iss = Inr (fallback_value fb iss))
   \<and> (rd p = Inr [] \<longrightarrow>
         extract_value_from_info rd p key fb isf iss = Inr (fallback_value fb iss))
   \<and> (\<forall>content. rd p = Inr content \<and> (\<forall>l \<in> set (readlines content). \<not> is_substring key l) \<longrightarrow>
         extract_value_from_info rd p key fb isf iss = Inr (fallback_value fb iss))
   \<and> (\<forall>e. extract_try_body rd p key isf iss = Inl e \<longrightarrow>
         extract_value_from_info rd p key fb isf iss = Inr (fallback_value fb iss))
   \<and> fallback_value None False = PyInt 0 \<and> fallback_value None True = PyStr []"
proof (intro conjI allI impI)
  show "\<exists>v. extract_value_from_info rd p key fb isf iss = Inr v"
    by (rule extract_returns)
next
  fix e assume "rd p = Inl e"
  then have "extract_try_body rd p key isf iss = Inl e"
    by (simp add: extract_try_body_def)
  then show "extract_value_from_info rd p key fb isf iss = Inr (fallback_value fb iss)"
    by (rule extract_fallback_on_raise)
next
  assume "rd p = Inr []"
  then have "extract_try_body rd p key isf iss = Inr None"
    by (simp add: extract_try_body_def readlines_def)
  then show "extract_value_from_info rd p key fb isf iss = Inr (fallback_value fb iss)"
    by (rule extract_fallback_on_exhausted)
next
  fix content
  assume "rd p = Inr content \<and> (\<forall>l \<in> set (readlines content). \<not> is_substring key l)"
  then have "extract_try_body rd p key isf iss = Inr None"
    by (simp add: extract_try_body_def scan_no_key)
  then show "extract_value_from_info rd p key fb isf iss = Inr (fallback_value fb iss)"
    by (rule extract_fallback_on_exhausted)
next
  fix e assume "extract_try_body rd p key isf iss = Inl e"
  then show "extract_value_from_info rd p key fb isf iss = Inr (fallback_value fb iss)"
    by (rule extract_fallback_on_raise)
qed (simp_all add: fallback_value_def)

theorem extract_never_raises_witness:
  "extract_value_from_info sample_reader ''/raw/none/info.txt'' ''frames'' None False False = Inr (PyInt 0)
   \<and> extract_value_from_info sample_reader ''/raw/none/info.txt'' ''indexing_method'' None False True = Inr (PyStr [])
   \<and> extract_value_from_info sample_reader ''/raw/c/info.txt'' ''frames'' (Some (PyInt 1)) False False = Inr (PyInt 1)
   \<and> extract_value_from_info sample_reader ''/raw/a/info.txt'' ''wavelength'' None True False = Inr (PyInt 0)"
  using extract_never_raises [of sample_reader "''/raw/none/info.txt''" "''frames''" None False False]
        extract_never_raises [of sample_reader "''/raw/none/info.txt''" "''indexing_method''" None False True]
        extract_never_raises [of sample_reader "''/raw/c/info.txt''" "''frames''" "Some (PyInt 1)" False False]
        extract_never_raises [of sample_reader "''/raw/a/info.txt''" "''wavelength''" None True False]
  by (simp add: sample_reader_def readlines_def fallback_value_def)










end
